theory Spec2Isabelle
  imports Complex_Main "HOL-Library.State_Monad"
begin

section \<open>The sample service of \<^verbatim>\<open>app.py\<close>\<close>

text \<open>
  \<^verbatim>\<open>app.py\<close> is a Flask application: eight view functions, a \<^verbatim>\<open>before_request\<close> and an
  \<^verbatim>\<open>after_request\<close> hook, two Prometheus instruments and two OpenTelemetry instruments.
  The view functions compute nothing but a response; everything else they do is a call into
  a library (logging, tracing, \<^verbatim>\<open>random\<close>, \<^verbatim>\<open>time\<close>). The embedding therefore threads one
  explicit \<open>world\<close> through every function: the sequence of library calls made so far, the
  sources the environment answers \<^verbatim>\<open>random\<close> and \<^verbatim>\<open>time.time()\<close> from, and the four
  instruments. A view function is a state transformer over that world whose result is either
  a response or a propagated exception.

  Python's \<^verbatim>\<open>int\<close> is \<open>int\<close>. Python's \<^verbatim>\<open>float\<close> is idealised as \<open>real\<close>; no fact below
  depends on rounding.
\<close>

subsection \<open>Values\<close>

text \<open>What \<^verbatim>\<open>jsonify\<close> is given: dictionaries keep the order in which the source writes
  their keys.\<close>

datatype json =
    JInt int
  | JFloat real
  | JStr string
  | JArr "json list"
  | JObj "(string \<times> json) list"

text \<open>\<^verbatim>\<open>d[key]\<close> on a JSON document, \<open>None\<close> where the key is absent or the document is not an object.\<close>

fun field :: "string \<Rightarrow> json \<Rightarrow> json option" where
  "field k (JObj kvs) = map_of kvs k"
| "field k _ = None"

text \<open>\<^verbatim>\<open>str(n)\<close> for an integer, as the f-strings of the source format it.\<close>

definition digit_char :: "nat \<Rightarrow> char" where
  "digit_char d = ''0123456789'' ! d"

fun str_nat :: "nat \<Rightarrow> string" where
  "str_nat n = (if n < 10 then [digit_char n] else str_nat (n div 10) @ [digit_char (n mod 10)])"

declare str_nat.simps [simp del]

definition str_int :: "int \<Rightarrow> string" where
  "str_int i = (if i < 0 then CHR ''-'' # str_nat (nat (- i)) else str_nat (nat i))"

datatype exn = ValueError string

text \<open>\<^verbatim>\<open>str(e)\<close>.\<close>

fun str_exn :: "exn \<Rightarrow> string" where
  "str_exn (ValueError msg) = msg"

text \<open>\<^verbatim>\<open>isinstance(e, Exception)\<close>: what \<^verbatim>\<open>except Exception\<close> catches.\<close>

fun is_Exception :: "exn \<Rightarrow> bool" where
  "is_Exception (ValueError _) = True"

subsection \<open>Library calls and the world\<close>

datatype level = DEBUG | INFO | WARNING | ERROR

fun levelno :: "level \<Rightarrow> nat" where
  "levelno DEBUG = 10"
| "levelno INFO = 20"
| "levelno WARNING = 30"
| "levelno ERROR = 40"

datatype attr_value = AttrBool bool | AttrInt int | AttrFloat real | AttrStr string

text \<open>
  One constructor per library call the source makes. A span call names the span it acts on;
  \<open>Log\<close> carries the exception that \<^verbatim>\<open>logger.exception\<close> attaches.
\<close>

datatype effect =
    Log level string "exn option"
  | SpanStart string
  | SpanEnd string
  | SetAttribute string string attr_value
  | RecordException string exn
  | Sleep real
  | Uniform real real real
  | RandInt int int int

type_synonym labels = "(string \<times> string) list"

record world =
  effects :: "effect list"
  rng :: "nat \<Rightarrow> nat"
  rng_pos :: nat
  clock :: "nat \<Rightarrow> real"
  clock_pos :: nat
  prom_request_counter :: "string \<times> string \<times> string \<rightharpoonup> nat"
  prom_request_duration :: "string \<times> string \<rightharpoonup> real list"
  otel_request_counter :: "(int \<times> labels) list"
  otel_request_duration :: "(real \<times> labels) list"

definition emit :: "effect \<Rightarrow> (world, unit) state" where
  "emit e = State (\<lambda>w. ((), w\<lparr>effects := effects w @ [e]\<rparr>))"

text \<open>
  \<^verbatim>\<open>logging.basicConfig(level=logging.INFO)\<close>: the logger \<^verbatim>\<open>otel-sample-app\<close> has no level of
  its own, so a record below \<open>INFO\<close> is dropped.
\<close>

definition logger_log :: "level \<Rightarrow> string \<Rightarrow> exn option \<Rightarrow> (world, unit) state" where
  "logger_log lvl msg exc =
     (if levelno INFO \<le> levelno lvl then emit (Log lvl msg exc) else State_Monad.return ())"

definition logger_debug :: "string \<Rightarrow> (world, unit) state" where
  "logger_debug msg = logger_log DEBUG msg None"

definition logger_info :: "string \<Rightarrow> (world, unit) state" where
  "logger_info msg = logger_log INFO msg None"

definition logger_warning :: "string \<Rightarrow> (world, unit) state" where
  "logger_warning msg = logger_log WARNING msg None"

definition logger_error :: "string \<Rightarrow> (world, unit) state" where
  "logger_error msg = logger_log ERROR msg None"

definition logger_exception :: "string \<Rightarrow> exn \<Rightarrow> (world, unit) state" where
  "logger_exception msg e = logger_log ERROR msg (Some e)"

text \<open>
  The generator is a sequence of raw draws chosen by the environment. \<^verbatim>\<open>random.random()\<close>
  is a 53-bit fraction in \<open>[0, 1)\<close>, \<^verbatim>\<open>random.uniform(a, b)\<close> is \<^verbatim>\<open>a + (b - a) * random()\<close>,
  and \<^verbatim>\<open>random.randint(a, b)\<close>, called with \<open>a \<le> b\<close> only, is \<open>a\<close> plus a draw below
  \<open>b - a + 1\<close>.
\<close>

definition random_raw :: "(world, nat) state" where
  "random_raw = State (\<lambda>w. (rng w (rng_pos w), w\<lparr>rng_pos := Suc (rng_pos w)\<rparr>))"

definition random_uniform :: "real \<Rightarrow> real \<Rightarrow> (world, real) state" where
  "random_uniform a b = do {
     r \<leftarrow> random_raw;
     let x = a + (b - a) * (real (r mod 2 ^ 53) / 2 ^ 53);
     emit (Uniform a b x);
     State_Monad.return x
   }"

definition random_randint :: "int \<Rightarrow> int \<Rightarrow> (world, int) state" where
  "random_randint a b = do {
     r \<leftarrow> random_raw;
     let n = a + int (r mod nat (b - a + 1));
     emit (RandInt a b n);
     State_Monad.return n
   }"

text \<open>\<^verbatim>\<open>time.time()\<close> reads the next value the environment's clock gives; nothing is assumed
  about successive readings. \<^verbatim>\<open>time.sleep(d)\<close> is recorded with its argument.\<close>

definition time_time :: "(world, real) state" where
  "time_time = State (\<lambda>w. (clock w (clock_pos w), w\<lparr>clock_pos := Suc (clock_pos w)\<rparr>))"

definition time_sleep :: "real \<Rightarrow> (world, unit) state" where
  "time_sleep d = emit (Sleep d)"

definition set_attribute :: "string \<Rightarrow> string \<Rightarrow> attr_value \<Rightarrow> (world, unit) state" where
  "set_attribute sp k v = emit (SetAttribute sp k v)"

definition record_exception :: "string \<Rightarrow> exn \<Rightarrow> (world, unit) state" where
  "record_exception sp e = emit (RecordException sp e)"

text \<open>
  \<^verbatim>\<open>with tracer.start_as_current_span(name) as span: body\<close>. The span ends when the block is
  left, also by \<^verbatim>\<open>return\<close>; an exception that leaves the block is recorded on the span and
  propagates.
\<close>

definition with_span :: "string \<Rightarrow> (world, exn + 'a) state \<Rightarrow> (world, exn + 'a) state" where
  "with_span name body = do {
     emit (SpanStart name);
     r \<leftarrow> body;
     (case r of Inl e \<Rightarrow> record_exception name e | Inr _ \<Rightarrow> State_Monad.return ());
     emit (SpanEnd name);
     State_Monad.return r
   }"

text \<open>Statement sequencing where the first statement may raise: the rest is skipped then.\<close>

definition and_then ::
  "(world, exn + 'a) state \<Rightarrow> ('a \<Rightarrow> (world, exn + 'b) state) \<Rightarrow> (world, exn + 'b) state" where
  "and_then m f = do {
     r \<leftarrow> m;
     (case r of Inl e \<Rightarrow> State_Monad.return (Inl e) | Inr x \<Rightarrow> f x)
   }"

text \<open>\<^verbatim>\<open>try: body except Exception as e: handler\<close>.\<close>

definition try_except ::
  "(world, exn + 'a) state \<Rightarrow> (exn \<Rightarrow> (world, exn + 'a) state) \<Rightarrow> (world, exn + 'a) state" where
  "try_except body handler = do {
     r \<leftarrow> body;
     (case r of
        Inl e \<Rightarrow> if is_Exception e then handler e else State_Monad.return (Inl e)
      | Inr x \<Rightarrow> State_Monad.return (Inr x))
   }"

definition raise :: "exn \<Rightarrow> (world, exn + 'a) state" where
  "raise e = State_Monad.return (Inl e)"

subsection \<open>Responses\<close>

text \<open>
  A response body is a JSON document (\<^verbatim>\<open>jsonify\<close>), the exposition of the Prometheus
  registry (\<^verbatim>\<open>generate_latest()\<close>, kept as the samples it renders), or a page the framework
  writes itself.
\<close>

datatype payload =
    Json json
  | Exposition "string \<times> string \<times> string \<rightharpoonup> nat" "string \<times> string \<rightharpoonup> real list"
  | FrameworkPage

record response =
  body :: payload
  status_code :: int

definition jsonify :: "json \<Rightarrow> response" where
  "jsonify d = \<lparr>body = Json d, status_code = 200\<rparr>"

text \<open>A view that returns the pair \<^verbatim>\<open>(response, status)\<close>.\<close>

definition with_status :: "response \<Rightarrow> int \<Rightarrow> response" where
  "with_status r s = r\<lparr>status_code := s\<rparr>"

subsection \<open>View functions\<close>

definition hello :: "(world, exn + response) state" where
  "hello = do {
     logger_info ''Processing request at / endpoint'';
     with_span ''hello-span'' (do {
       set_attribute ''hello-span'' ''custom.attribute'' (AttrStr ''hello-world'');
       d \<leftarrow> random_uniform (1 / 10) (3 / 10);
       time_sleep d;
       logger_info ''Successfully processed / request'';
       State_Monad.return (Inr (jsonify (JObj
         [(''message'', JStr ''Hello from OTel Sample App!''), (''status'', JStr ''success'')])))
     })
   }"

definition get_users :: "(world, exn + response) state" where
  "get_users = do {
     logger_info ''Fetching users list'';
     with_span ''get-users'' (do {
       set_attribute ''get-users'' ''users.count'' (AttrInt 3);
       d \<leftarrow> random_uniform (5 / 100) (15 / 100);
       time_sleep d;
       let users =
         [JObj [(''id'', JInt 1), (''name'', JStr ''Alice'')],
          JObj [(''id'', JInt 2), (''name'', JStr ''Bob'')],
          JObj [(''id'', JInt 3), (''name'', JStr ''Charlie'')]];
       logger_info (''Retrieved '' @ str_int (int (length users)) @ '' users'');
       State_Monad.return (Inr (jsonify (JObj [(''users'', JArr users)])))
     })
   }"

definition get_user :: "int \<Rightarrow> (world, exn + response) state" where
  "get_user user_id = do {
     logger_info (''Fetching user with id: '' @ str_int user_id);
     with_span ''get-user-by-id'' (do {
       set_attribute ''get-user-by-id'' ''user.id'' (AttrInt user_id);
       d \<leftarrow> random_uniform (5 / 100) (2 / 10);
       time_sleep d;
       if user_id > 10 then do {
         logger_warning (''User '' @ str_int user_id @ '' not found'');
         set_attribute ''get-user-by-id'' ''error'' (AttrBool True);
         State_Monad.return
           (Inr (with_status (jsonify (JObj [(''error'', JStr ''User not found'')])) 404))
       } else do {
         let name = ''User'' @ str_int user_id;
         let user = JObj
           [(''id'', JInt user_id), (''name'', JStr name),
            (''email'', JStr (''user'' @ str_int user_id @ ''@example.com''))];
         logger_info (''Retrieved user: '' @ name);
         State_Monad.return (Inr (jsonify (JObj [(''user'', user)])))
       }
     })
   }"

definition create_order :: "(world, exn + response) state" where
  "create_order = do {
     logger_info ''Creating new order'';
     with_span ''create-order''
       (and_then
          (with_span ''validate-order'' (do {
             d \<leftarrow> random_uniform (2 / 100) (5 / 100);
             time_sleep d;
             logger_debug ''Order validated'';
             State_Monad.return (Inr ())
           }))
          (\<lambda>_. and_then
             (with_span ''process-payment'' (do {
                d \<leftarrow> random_uniform (1 / 10) (2 / 10);
                time_sleep d;
                logger_debug ''Payment processed'';
                State_Monad.return (Inr ())
              }))
             (\<lambda>_. and_then
                (with_span ''update-inventory'' (do {
                   d \<leftarrow> random_uniform (3 / 100) (8 / 100);
                   time_sleep d;
                   logger_debug ''Inventory updated'';
                   State_Monad.return (Inr ())
                 }))
                (\<lambda>_. do {
                   order_id \<leftarrow> random_randint 1000 9999;
                   set_attribute ''create-order'' ''order.id'' (AttrInt order_id);
                   logger_info (''Order created successfully with id: '' @ str_int order_id);
                   State_Monad.return (Inr (jsonify (JObj
                     [(''order_id'', JInt order_id), (''status'', JStr ''created'')])))
                 }))))
   }"

definition trigger_error :: "(world, exn + response) state" where
  "trigger_error = do {
     logger_error ''Simulating an error scenario'';
     with_span ''error-endpoint'' (do {
       set_attribute ''error-endpoint'' ''error'' (AttrBool True);
       set_attribute ''error-endpoint'' ''error.type'' (AttrStr ''SimulatedError'');
       try_except
         (raise (ValueError ''This is a simulated error for testing''))
         (\<lambda>e. do {
            logger_exception ''An error occurred'' e;
            record_exception ''error-endpoint'' e;
            State_Monad.return
              (Inr (with_status (jsonify (JObj [(''error'', JStr (str_exn e))])) 500))
          })
     })
   }"

text \<open>
  \<^verbatim>\<open>f"{delay:.2f}"\<close> for a non-negative value: two decimals, a tie rounded to the even
  neighbour.
\<close>

definition round_half_even :: "real \<Rightarrow> int" where
  "round_half_even x =
     (let n = \<lfloor>x\<rfloor>; r = x - of_int n
      in if r < 1 / 2 then n else if 1 / 2 < r then n + 1 else if even n then n else n + 1)"

definition format_2f :: "real \<Rightarrow> string" where
  "format_2f x =
     (let c = nat (round_half_even (x * 100))
      in str_nat (c div 100) @ ''.'' @ [digit_char (c mod 100 div 10), digit_char (c mod 10)])"

definition slow_endpoint :: "(world, exn + response) state" where
  "slow_endpoint = do {
     logger_info ''Processing slow request'';
     with_span ''slow-endpoint'' (do {
       delay \<leftarrow> random_uniform 1 3;
       set_attribute ''slow-endpoint'' ''delay.seconds'' (AttrFloat delay);
       logger_info (''Simulating slow operation for '' @ format_2f delay @ '' seconds'');
       time_sleep delay;
       logger_info ''Slow operation completed'';
       State_Monad.return (Inr (jsonify (JObj
         [(''message'', JStr ''Slow operation completed''), (''delay'', JFloat delay)])))
     })
   }"

text \<open>\<^verbatim>\<open>Response(generate_latest(), ...)\<close>: the registry as it is when the view runs.\<close>

definition metrics :: "(world, exn + response) state" where
  "metrics = do {
     w \<leftarrow> State_Monad.get;
     State_Monad.return
       (Inr \<lparr>body = Exposition (prom_request_counter w) (prom_request_duration w),
             status_code = 200\<rparr>)
   }"

definition health :: "(world, exn + response) state" where
  "health = State_Monad.return (Inr (jsonify (JObj
     [(''status'', JStr ''healthy''), (''service'', JStr ''otel-sample-app'')])))"

subsection \<open>The request hooks\<close>

record request =
  "method" :: string
  path :: string

text \<open>\<^verbatim>\<open>flask.g\<close>, fresh for every request; \<open>None\<close> is an attribute that was never set.\<close>

record g_ctx =
  start_time :: "real option"

definition empty_g :: g_ctx where
  "empty_g = \<lparr>start_time = None\<rparr>"

definition before_request :: "g_ctx \<Rightarrow> (world, g_ctx) state" where
  "before_request g = do {
     now \<leftarrow> time_time;
     State_Monad.return (g\<lparr>start_time := Some now\<rparr>)
   }"

text \<open>
  \<^verbatim>\<open>Counter.labels(...).inc()\<close> and \<^verbatim>\<open>Histogram.labels(...).observe(v)\<close>: \<^verbatim>\<open>labels\<close> makes
  the child on first use, at zero and with no observation. A label value is the \<^verbatim>\<open>str\<close> of
  what the source passes. The counter's value is a natural number here.
\<close>

definition counter_value :: "('k \<rightharpoonup> nat) \<Rightarrow> 'k \<Rightarrow> nat" where
  "counter_value c k = (case c k of None \<Rightarrow> 0 | Some v \<Rightarrow> v)"

definition prom_counter_inc :: "string \<times> string \<times> string \<Rightarrow> (world, unit) state" where
  "prom_counter_inc k = State (\<lambda>w. ((), w\<lparr>prom_request_counter :=
     (prom_request_counter w)(k \<mapsto> counter_value (prom_request_counter w) k + 1)\<rparr>))"

definition prom_histogram_observe :: "string \<times> string \<Rightarrow> real \<Rightarrow> (world, unit) state" where
  "prom_histogram_observe k v = State (\<lambda>w. ((), w\<lparr>prom_request_duration :=
     (prom_request_duration w)(k \<mapsto> (case prom_request_duration w k of None \<Rightarrow> [] | Some vs \<Rightarrow> vs) @ [v])\<rparr>))"

text \<open>\<^verbatim>\<open>counter.add(n, attributes)\<close> and \<^verbatim>\<open>histogram.record(v, attributes)\<close> hand one
  measurement with its attributes to the exporter.\<close>

definition otel_counter_add :: "int \<Rightarrow> labels \<Rightarrow> (world, unit) state" where
  "otel_counter_add n attrs =
     State (\<lambda>w. ((), w\<lparr>otel_request_counter := otel_request_counter w @ [(n, attrs)]\<rparr>))"

definition otel_histogram_record :: "real \<Rightarrow> labels \<Rightarrow> (world, unit) state" where
  "otel_histogram_record v attrs =
     State (\<lambda>w. ((), w\<lparr>otel_request_duration := otel_request_duration w @ [(v, attrs)]\<rparr>))"

definition after_request :: "request \<Rightarrow> g_ctx \<Rightarrow> response \<Rightarrow> (world, response) state" where
  "after_request req g resp = do {
     (case start_time g of
        Some t0 \<Rightarrow> do {
          now \<leftarrow> time_time;
          let duration = now - t0;
          prom_counter_inc (method req, path req, str_int (status_code resp));
          prom_histogram_observe (method req, path req) duration;
          otel_counter_add 1 [(''endpoint'', path req), (''method'', method req)];
          otel_histogram_record duration [(''endpoint'', path req)]
        }
      | None \<Rightarrow> State_Monad.return ());
     State_Monad.return resp
   }"

subsection \<open>Routing and the request cycle\<close>

text \<open>
  The route table is the list of \<^verbatim>\<open>@app.route\<close> decorators, in the order of the source. Every
  rule is registered without \<^verbatim>\<open>methods\<close>, so it answers \<^verbatim>\<open>GET\<close>, \<^verbatim>\<open>HEAD\<close> and \<^verbatim>\<open>OPTIONS\<close>.
  A path is matched as it stands, rule by rule. The span and the hooks that
  \<^verbatim>\<open>FlaskInstrumentor\<close> adds around every request by itself are not part of the model.
\<close>

datatype endpoint =
    Hello
  | Get_users
  | Get_user int
  | Create_order
  | Trigger_error
  | Slow_endpoint
  | Metrics
  | Health

definition is_digit :: "char \<Rightarrow> bool" where
  "is_digit c = (48 \<le> (of_char c :: nat) \<and> (of_char c :: nat) \<le> 57)"

definition digit_val :: "char \<Rightarrow> nat" where
  "digit_val c = of_char c - 48"

definition nat_of_digits :: "string \<Rightarrow> nat" where
  "nat_of_digits ds = foldl (\<lambda>a c. 10 * a + digit_val c) 0 ds"

text \<open>
  Modelled from the spec: the integer converter of the rule \<^verbatim>\<open>/api/users/<int:user_id>\<close>
  belongs to the framework and is not in the source. It matches only non-negative integer
  path segments: one or more decimal digits, no sign. The view is given their value.
\<close>

definition int_converter :: "string \<Rightarrow> int option" where
  "int_converter seg =
     (if seg \<noteq> [] \<and> list_all is_digit seg then Some (int (nat_of_digits seg)) else None)"

definition strip_prefix :: "string \<Rightarrow> string \<Rightarrow> string option" where
  "strip_prefix p s = (if take (length p) s = p then Some (drop (length p) s) else None)"

definition url_match :: "string \<Rightarrow> endpoint option" where
  "url_match p =
     (if p = ''/'' then Some Hello
      else if p = ''/api/users'' then Some Get_users
      else case strip_prefix ''/api/users/'' p of
        Some seg \<Rightarrow> map_option Get_user (int_converter seg)
      | None \<Rightarrow>
          if p = ''/api/orders'' then Some Create_order
          else if p = ''/api/error'' then Some Trigger_error
          else if p = ''/api/slow'' then Some Slow_endpoint
          else if p = ''/metrics'' then Some Metrics
          else if p = ''/health'' then Some Health
          else None)"

fun view_function :: "endpoint \<Rightarrow> (world, exn + response) state" where
  "view_function Hello = hello"
| "view_function Get_users = get_users"
| "view_function (Get_user user_id) = get_user user_id"
| "view_function Create_order = create_order"
| "view_function Trigger_error = trigger_error"
| "view_function Slow_endpoint = slow_endpoint"
| "view_function Metrics = metrics"
| "view_function Health = health"

text \<open>
  What the framework answers by itself: no rule matches (404), the rule does not allow the
  method (405), the automatic answer to \<^verbatim>\<open>OPTIONS\<close> (200), and an exception that leaves a
  view (500).
\<close>

definition framework_response :: "int \<Rightarrow> response" where
  "framework_response s = \<lparr>body = FrameworkPage, status_code = s\<rparr>"

definition dispatch_request :: "request \<Rightarrow> (world, exn + response) state" where
  "dispatch_request req =
     (case url_match (path req) of
        None \<Rightarrow> State_Monad.return (Inr (framework_response 404))
      | Some ep \<Rightarrow>
          if method req = ''OPTIONS'' then State_Monad.return (Inr (framework_response 200))
          else if method req = ''GET'' \<or> method req = ''HEAD'' then view_function ep
          else State_Monad.return (Inr (framework_response 405)))"

text \<open>The response that goes on to \<^verbatim>\<open>after_request\<close>: the view's own, or the framework's 500
  for an exception the view let through.\<close>

definition answer :: "exn + response \<Rightarrow> response" where
  "answer r = (case r of Inr resp \<Rightarrow> resp | Inl e \<Rightarrow> framework_response 500)"

text \<open>One request: \<^verbatim>\<open>before_request\<close>, the view, \<^verbatim>\<open>after_request\<close> on the response.\<close>

definition full_dispatch_request :: "request \<Rightarrow> (world, response) state" where
  "full_dispatch_request req = do {
     g \<leftarrow> before_request empty_g;
     r \<leftarrow> dispatch_request req;
     after_request req g (answer r)
   }"

text \<open>Requests served one after the other.\<close>

fun serve :: "request list \<Rightarrow> world \<Rightarrow> world" where
  "serve [] w = w"
| "serve (req # reqs) w = serve reqs (snd (run_state (full_dispatch_request req) w))"

text \<open>The label values under which \<^verbatim>\<open>after_request\<close> counts a request that is served in
  world \<open>w\<close>: its method, its path and the \<^verbatim>\<open>str\<close> of the status it is answered with.\<close>

definition request_labels :: "request \<Rightarrow> world \<Rightarrow> string \<times> string \<times> string" where
  "request_labels req w =
     (method req, path req, str_int (status_code (fst (run_state (full_dispatch_request req) w))))"

text \<open>A world in which nothing has happened yet, for evaluation.\<close>

definition fresh_world :: world where
  "fresh_world =
     \<lparr>effects = [], rng = (\<lambda>i. 7919 * i + 104729), rng_pos = 0,
      clock = (\<lambda>i. real i / 4), clock_pos = 0,
      prom_request_counter = Map.empty, prom_request_duration = Map.empty,
      otel_request_counter = [], otel_request_duration = []\<rparr>"

section \<open>Properties\<close>

subsection \<open>Running the library calls\<close>

lemmas library_calls =
  emit_def logger_log_def logger_debug_def logger_info_def logger_warning_def
  logger_error_def logger_exception_def random_raw_def random_uniform_def random_randint_def
  time_time_def time_sleep_def set_attribute_def record_exception_def with_span_def
  and_then_def try_except_def raise_def jsonify_def with_status_def

lemma digit_char_numeral:
  "digit_char 0 = CHR ''0''" "digit_char 1 = CHR ''1''" "digit_char 2 = CHR ''2''"
  "digit_char 3 = CHR ''3''" "digit_char 4 = CHR ''4''" "digit_char 5 = CHR ''5''"
  "digit_char 6 = CHR ''6''" "digit_char 7 = CHR ''7''" "digit_char 8 = CHR ''8''"
  "digit_char 9 = CHR ''9''"
  by (simp_all add: digit_char_def)

lemmas views =
  hello_def get_users_def get_user_def create_order_def trigger_error_def
  slow_endpoint_def metrics_def health_def

text \<open>No view function touches an instrument, and the status a view answers with does not
  depend on the world.\<close>

lemma view_keeps_instruments:
  "prom_request_counter (snd (run_state (view_function ep) w)) = prom_request_counter w"
  "prom_request_duration (snd (run_state (view_function ep) w)) = prom_request_duration w"
  "otel_request_counter (snd (run_state (view_function ep) w)) = otel_request_counter w"
  "otel_request_duration (snd (run_state (view_function ep) w)) = otel_request_duration w"
  by (cases ep; simp add: views library_calls Let_def)+

lemma view_status_fixed:
  "map_sum id status_code (fst (run_state (view_function ep) w)) =
   map_sum id status_code (fst (run_state (view_function ep) w'))"
  by (cases ep; simp add: views library_calls Let_def)

lemma dispatch_keeps_instruments:
  "prom_request_counter (snd (run_state (dispatch_request req) w)) = prom_request_counter w"
  "prom_request_duration (snd (run_state (dispatch_request req) w)) = prom_request_duration w"
  "otel_request_counter (snd (run_state (dispatch_request req) w)) = otel_request_counter w"
  "otel_request_duration (snd (run_state (dispatch_request req) w)) = otel_request_duration w"
  by (simp_all add: dispatch_request_def view_keeps_instruments split: option.splits)

lemma dispatch_status_fixed:
  "status_code (answer (fst (run_state (dispatch_request req) w))) =
   status_code (answer (fst (run_state (dispatch_request req) w')))"
proof (cases "url_match (path req)")
  case None
  then show ?thesis by (simp add: dispatch_request_def)
next
  case (Some ep)
  from view_status_fixed [of ep w w']
  have "status_code (answer (fst (run_state (view_function ep) w))) =
        status_code (answer (fst (run_state (view_function ep) w')))"
    by (cases "fst (run_state (view_function ep) w)"; cases "fst (run_state (view_function ep) w')")
       (simp_all add: answer_def)
  with Some show ?thesis by (simp add: dispatch_request_def)
qed

text \<open>One request, written out: the two clock readings, the view in between, and the four
  recordings of \<^verbatim>\<open>after_request\<close>.\<close>

lemma full_dispatch_unfold:
  "run_state (full_dispatch_request req) w =
     (let w1 = w\<lparr>clock_pos := Suc (clock_pos w)\<rparr>;
          t0 = clock w (clock_pos w);
          r = run_state (dispatch_request req) w1;
          resp = answer (fst r);
          w2 = snd r;
          duration = clock w2 (clock_pos w2) - t0
      in (resp,
          w2\<lparr>clock_pos := Suc (clock_pos w2),
             prom_request_counter := (prom_request_counter w2)
               ((method req, path req, str_int (status_code resp)) \<mapsto>
                  counter_value (prom_request_counter w2)
                    (method req, path req, str_int (status_code resp)) + 1),
             prom_request_duration := (prom_request_duration w2)
               ((method req, path req) \<mapsto>
                  (case prom_request_duration w2 (method req, path req) of
                     None \<Rightarrow> [] | Some vs \<Rightarrow> vs) @ [duration]),
             otel_request_counter := otel_request_counter w2 @
               [(1, [(''endpoint'', path req), (''method'', method req)])],
             otel_request_duration := otel_request_duration w2 @
               [(duration, [(''endpoint'', path req)])]\<rparr>))"
  by (simp add: full_dispatch_request_def before_request_def after_request_def empty_g_def
      time_time_def prom_counter_inc_def prom_histogram_observe_def otel_counter_add_def
      otel_histogram_record_def Let_def split: prod.splits)

lemma full_dispatch_response:
  "fst (run_state (full_dispatch_request req) w) =
     answer (fst (run_state (dispatch_request req) (w\<lparr>clock_pos := Suc (clock_pos w)\<rparr>)))"
  by (simp add: full_dispatch_unfold Let_def)

lemma full_dispatch_status_fixed:
  "status_code (fst (run_state (full_dispatch_request req) w)) =
   status_code (fst (run_state (full_dispatch_request req) w'))"
  using dispatch_status_fixed [of req "w\<lparr>clock_pos := Suc (clock_pos w)\<rparr>"
      "w'\<lparr>clock_pos := Suc (clock_pos w')\<rparr>"]
  by (simp add: full_dispatch_unfold Let_def)

lemma request_labels_fixed: "request_labels req w = request_labels req w'"
  by (simp add: request_labels_def full_dispatch_status_fixed [of req w w'])

lemma full_dispatch_counter:
  "prom_request_counter (snd (run_state (full_dispatch_request req) w)) =
     (prom_request_counter w)(request_labels req w \<mapsto>
        counter_value (prom_request_counter w) (request_labels req w) + 1)"
  by (simp add: request_labels_def full_dispatch_unfold Let_def dispatch_keeps_instruments)

lemma full_dispatch_counter_value:
  "counter_value (prom_request_counter (snd (run_state (full_dispatch_request req) w))) k =
     counter_value (prom_request_counter w) k + (if k = request_labels req w then 1 else 0)"
  by (simp add: full_dispatch_counter counter_value_def)

text \<open>After any sequence of requests a counter has grown by the number of requests that carry
  its labels.\<close>

lemma serve_counter_value:
  "counter_value (prom_request_counter (serve reqs w)) k =
     counter_value (prom_request_counter w) k +
     length (filter (\<lambda>req. request_labels req w0 = k) reqs)"
proof (induction reqs arbitrary: w)
  case Nil
  show ?case by simp
next
  case (Cons req reqs)
  have "request_labels req w = request_labels req w0" by (rule request_labels_fixed)
  then show ?case
    by (auto simp: Cons.IH full_dispatch_counter_value)
qed

subsection \<open>\<^verbatim>\<open>GET /api/users/<id>\<close>\<close>

text \<open>
  C1. Called with any integer \<open>user_id \<le> 10\<close>, in any world, \<^verbatim>\<open>get_user\<close> returns normally
  with status 200 and the JSON body \<^verbatim>\<open>{"user": {"id": user_id, "name": "User<user_id>",
  "email": "user<user_id>@example.com"}}\<close>, where \<^verbatim>\<open><user_id>\<close> is the decimal text of the id.
\<close>

theorem get_user_found:
  "user_id \<le> 10 \<Longrightarrow>
   fst (run_state (get_user user_id) w) =
     Inr \<lparr>body = Json (JObj [(''user'', JObj
            [(''id'', JInt user_id),
             (''name'', JStr (''User'' @ str_int user_id)),
             (''email'', JStr (''user'' @ str_int user_id @ ''@example.com''))])]),
          status_code = 200\<rparr>"
  by (simp add: get_user_def library_calls Let_def)

theorem get_user_found_witness:
  "(3::int) \<le> 10 \<and>
   fst (run_state (get_user 3) fresh_world) =
     Inr \<lparr>body = Json (JObj [(''user'', JObj
            [(''id'', JInt 3), (''name'', JStr ''User3''),
             (''email'', JStr ''user3@example.com'')])]),
          status_code = 200\<rparr>"
  using get_user_found [of 3 fresh_world]
  by (simp add: str_int_def str_nat.simps digit_char_numeral)

text \<open>
  C2. Called with any integer \<open>user_id > 10\<close>, \<^verbatim>\<open>get_user\<close> returns status 404 and the body
  \<^verbatim>\<open>{"error": "User not found"}\<close>: the body has the \<^verbatim>\<open>error\<close> field and no \<^verbatim>\<open>user\<close> field.
\<close>

theorem get_user_not_found:
  "10 < user_id \<Longrightarrow>
   (\<exists>doc. fst (run_state (get_user user_id) w) = Inr \<lparr>body = Json doc, status_code = 404\<rparr>
      \<and> doc = JObj [(''error'', JStr ''User not found'')]
      \<and> field ''error'' doc = Some (JStr ''User not found'')
      \<and> field ''user'' doc = None)"
  by (simp add: get_user_def library_calls Let_def)

theorem get_user_not_found_witness:
  "(10::int) < 11 \<and>
   (\<exists>doc. fst (run_state (get_user 11) fresh_world) = Inr \<lparr>body = Json doc, status_code = 404\<rparr>
      \<and> doc = JObj [(''error'', JStr ''User not found'')]
      \<and> field ''error'' doc = Some (JStr ''User not found'')
      \<and> field ''user'' doc = None)"
  using get_user_not_found [of 11 fresh_world] by simp

subsection \<open>\<^verbatim>\<open>GET /api/error\<close>\<close>

text \<open>
  C3. In every world \<^verbatim>\<open>trigger_error\<close> has one outcome: it logs the error, opens its span,
  raises the \<^verbatim>\<open>ValueError\<close>, catches it, logs and records it, and returns status 500 with
  the body \<^verbatim>\<open>{"error": "This is a simulated error for testing"}\<close>, the text of the exception.
\<close>

theorem trigger_error_outcome:
  "run_state trigger_error w =
     (Inr \<lparr>body = Json (JObj [(''error'', JStr ''This is a simulated error for testing'')]),
           status_code = 500\<rparr>,
      w\<lparr>effects := effects w @
        [Log ERROR ''Simulating an error scenario'' None,
         SpanStart ''error-endpoint'',
         SetAttribute ''error-endpoint'' ''error'' (AttrBool True),
         SetAttribute ''error-endpoint'' ''error.type'' (AttrStr ''SimulatedError''),
         Log ERROR ''An error occurred''
           (Some (ValueError ''This is a simulated error for testing'')),
         RecordException ''error-endpoint'' (ValueError ''This is a simulated error for testing''),
         SpanEnd ''error-endpoint'']\<rparr>)"
  by (simp add: trigger_error_def library_calls)

text \<open>
  C10. \<^verbatim>\<open>trigger_error\<close> never hands an exception to its caller: in every world its result is
  a response, not a propagated exception.
\<close>

theorem trigger_error_returns_normally:
  "\<exists>resp w'. run_state trigger_error w = (Inr resp, w')"
  by (simp add: trigger_error_def library_calls)

subsection \<open>\<^verbatim>\<open>GET /api/orders\<close>\<close>

text \<open>
  C6. In every world \<^verbatim>\<open>create_order\<close> returns the body \<^verbatim>\<open>{"order_id": n, "status": "created"}\<close>
  with \<open>1000 \<le> n \<le> 9999\<close>.
\<close>

theorem create_order_id_range:
  "\<exists>n. fst (run_state create_order w) =
          Inr \<lparr>body = Json (JObj [(''order_id'', JInt n), (''status'', JStr ''created'')]),
               status_code = 200\<rparr>
      \<and> 1000 \<le> n \<and> n \<le> 9999"
  by (simp add: create_order_def library_calls Let_def)

text \<open>
  C8. The calls \<^verbatim>\<open>create_order\<close> makes, in order: the parent span \<^verbatim>\<open>create-order\<close> is opened;
  inside it the spans \<^verbatim>\<open>validate-order\<close>, \<^verbatim>\<open>process-payment\<close> and \<^verbatim>\<open>update-inventory\<close> are
  opened and closed one after the other, each around one sleep of the duration drawn for it;
  only then the order id is drawn, set on the parent span, logged and returned, and the parent
  span is closed. (The three \<^verbatim>\<open>logger.debug\<close> calls are below the configured level.)
\<close>

theorem create_order_spans:
  "\<exists>d1 d2 d3 n.
     fst (run_state create_order w) =
       Inr (jsonify (JObj [(''order_id'', JInt n), (''status'', JStr ''created'')])) \<and>
     effects (snd (run_state create_order w)) = effects w @
       [Log INFO ''Creating new order'' None,
        SpanStart ''create-order'',
        SpanStart ''validate-order'',
          Uniform (2 / 100) (5 / 100) d1, Sleep d1,
        SpanEnd ''validate-order'',
        SpanStart ''process-payment'',
          Uniform (1 / 10) (2 / 10) d2, Sleep d2,
        SpanEnd ''process-payment'',
        SpanStart ''update-inventory'',
          Uniform (3 / 100) (8 / 100) d3, Sleep d3,
        SpanEnd ''update-inventory'',
        RandInt 1000 9999 n,
        SetAttribute ''create-order'' ''order.id'' (AttrInt n),
        Log INFO (''Order created successfully with id: '' @ str_int n) None,
        SpanEnd ''create-order'']"
  by (simp add: create_order_def library_calls Let_def)

subsection \<open>The instruments\<close>

text \<open>
  C4. What \<^verbatim>\<open>after_request\<close> records for the request \<^verbatim>\<open>GET /health\<close> served in the fresh world
  (clock readings 0 and 1/4): the Prometheus counter under method, path and status, the
  Prometheus histogram under method and path, the OpenTelemetry counter with the attributes
  \<^verbatim>\<open>endpoint\<close> and \<^verbatim>\<open>method\<close> \<^emph>\<open>but the OpenTelemetry histogram with the attribute\<close>
  \<^verbatim>\<open>endpoint\<close> \<^emph>\<open>alone\<close>: the method is not among its attributes.
\<close>

theorem after_request_otel_histogram_attributes:
  "prom_request_counter (snd (run_state
      (full_dispatch_request \<lparr>method = ''GET'', path = ''/health''\<rparr>) fresh_world))
      (''GET'', ''/health'', ''200'') = Some 1
   \<and> prom_request_duration (snd (run_state
      (full_dispatch_request \<lparr>method = ''GET'', path = ''/health''\<rparr>) fresh_world))
      (''GET'', ''/health'') = Some [1 / 4]
   \<and> otel_request_counter (snd (run_state
      (full_dispatch_request \<lparr>method = ''GET'', path = ''/health''\<rparr>) fresh_world)) =
     [(1, [(''endpoint'', ''/health''), (''method'', ''GET'')])]
   \<and> otel_request_duration (snd (run_state
      (full_dispatch_request \<lparr>method = ''GET'', path = ''/health''\<rparr>) fresh_world)) =
     [(1 / 4, [(''endpoint'', ''/health'')])]
   \<and> map_of [(''endpoint'', ''/health'')] ''method'' = None"
proof -
  have m: "url_match ''/health'' = Some Health"
    by (simp add: url_match_def strip_prefix_def)
  have s: "str_int 200 = ''200''"
    by (simp add: str_int_def str_nat.simps digit_char_numeral)
  show ?thesis
    by (simp add: full_dispatch_unfold Let_def dispatch_request_def m s health_def jsonify_def
        answer_def fresh_world_def counter_value_def)
qed

text \<open>
  C5. The request counter is monotonic. Serving one request adds exactly one to the counter
  with that request's method, path and status; serving a request, or any sequence of
  requests, decreases no counter; and after any sequence of requests, \<^verbatim>\<open>GET /metrics\<close> exposes
  for the labels of a request a value that is at least the number of times that request
  (method and path) occurs in the sequence. The status among the labels is the one the request
  is answered with, which is the same in every world.
\<close>

theorem request_counter_monotonic:
  "counter_value (prom_request_counter (snd (run_state (full_dispatch_request req) w)))
      (request_labels req w) =
     counter_value (prom_request_counter w) (request_labels req w) + 1
   \<and> counter_value (prom_request_counter w) k \<le>
       counter_value (prom_request_counter (snd (run_state (full_dispatch_request req) w))) k
   \<and> counter_value (prom_request_counter w) k \<le>
       counter_value (prom_request_counter (serve reqs w)) k
   \<and> (\<exists>c h. body (fst (run_state (full_dispatch_request \<lparr>method = ''GET'', path = ''/metrics''\<rparr>)
                 (serve reqs w))) = Exposition c h
          \<and> count_list reqs req \<le> counter_value c (request_labels req w0))"
proof -
  have a: "counter_value (prom_request_counter (snd (run_state (full_dispatch_request req) w)))
      (request_labels req w) =
     counter_value (prom_request_counter w) (request_labels req w) + 1"
    by (simp add: full_dispatch_counter_value)
  have b: "counter_value (prom_request_counter w) k \<le>
       counter_value (prom_request_counter (snd (run_state (full_dispatch_request req) w))) k"
    by (simp add: full_dispatch_counter_value)
  have c: "counter_value (prom_request_counter w) k \<le>
       counter_value (prom_request_counter (serve reqs w)) k"
    by (simp add: serve_counter_value [where ?w0.0 = w0])
  have m: "url_match ''/metrics'' = Some Metrics"
    by (simp add: url_match_def strip_prefix_def)
  have d1: "body (fst (run_state (full_dispatch_request \<lparr>method = ''GET'', path = ''/metrics''\<rparr>)
                 (serve reqs w))) =
        Exposition (prom_request_counter (serve reqs w)) (prom_request_duration (serve reqs w))"
    by (simp add: full_dispatch_response dispatch_request_def m metrics_def answer_def)
  have "count_list reqs req \<le>
        length (filter (\<lambda>r. request_labels r w0 = request_labels req w0) reqs)"
    by (induction reqs) auto
  then have d2: "count_list reqs req \<le>
        counter_value (prom_request_counter (serve reqs w)) (request_labels req w0)"
    by (simp add: serve_counter_value [where ?w0.0 = w0])
  from a b c d1 d2 show ?thesis by blast
qed

subsection \<open>The route of \<^verbatim>\<open>get_user\<close>\<close>

lemma digit_char_is_digit: "d < 10 \<Longrightarrow> is_digit (digit_char d) \<and> digit_val (digit_char d) = d"
proof -
  assume "d < 10"
  then have "d \<in> {0, 1, 2, 3, 4, 5, 6, 7, 8, 9}" by auto
  then show ?thesis
    by (auto simp: digit_char_def is_digit_def digit_val_def)
qed

lemma str_nat_digits:
  "str_nat n \<noteq> [] \<and> list_all is_digit (str_nat n) \<and> nat_of_digits (str_nat n) = n"
proof (induction n rule: str_nat.induct)
  case (1 n)
  show ?case
  proof (cases "n < 10")
    case True
    then show ?thesis
      using digit_char_is_digit [of n] by (simp add: str_nat.simps [of n] nat_of_digits_def)
  next
    case False
    with 1 have ih: "str_nat (n div 10) \<noteq> []" "list_all is_digit (str_nat (n div 10))"
      "nat_of_digits (str_nat (n div 10)) = n div 10" by simp_all
    have "n mod 10 < 10" by simp
    from digit_char_is_digit [OF this] ih False show ?thesis
      by (simp add: str_nat.simps [of n] nat_of_digits_def)
  qed
qed

lemma url_match_users:
  "url_match (''/api/users/'' @ seg) = map_option Get_user (int_converter seg)"
  by (simp add: url_match_def strip_prefix_def)

lemma strip_prefix_Some: "strip_prefix pre s = Some seg \<Longrightarrow> s = pre @ seg"
proof -
  assume a: "strip_prefix pre s = Some seg"
  then have "take (length pre) s = pre" "drop (length pre) s = seg"
    by (simp_all add: strip_prefix_def split: if_splits)
  then have "take (length pre) s @ drop (length pre) s = pre @ seg" by simp
  then show ?thesis by simp
qed

lemma url_match_Get_user:
  assumes "url_match p = Some (Get_user i)"
  shows "\<exists>seg. p = ''/api/users/'' @ seg \<and> seg \<noteq> [] \<and> list_all is_digit seg
           \<and> i = int (nat_of_digits seg)"
proof -
  from assms obtain seg where s: "strip_prefix ''/api/users/'' p = Some seg"
    and c: "int_converter seg = Some i"
    by (auto simp: url_match_def split: if_splits option.splits)
  from s have "p = ''/api/users/'' @ seg" by (rule strip_prefix_Some)
  moreover from c have "seg \<noteq> [] \<and> list_all is_digit seg \<and> i = int (nat_of_digits seg)"
    by (auto simp: int_converter_def split: if_splits)
  ultimately show ?thesis by blast
qed

lemma str_int_negative: "i < 0 \<Longrightarrow> int_converter (str_int i) = None"
  by (simp add: str_int_def int_converter_def is_digit_def)

lemma get_user_zero:
  "fst (run_state (get_user 0) w) =
     Inr \<lparr>body = Json (JObj [(''user'', JObj
            [(''id'', JInt 0), (''name'', JStr ''User0''),
             (''email'', JStr ''user0@example.com'')])]),
          status_code = 200\<rparr>"
  by (simp add: get_user_def library_calls Let_def str_int_def str_nat.simps digit_char_numeral)

text \<open>
  C9. The rule \<^verbatim>\<open>/api/users/<int:user_id>\<close> reaches \<^verbatim>\<open>get_user\<close> only through a path
  \<^verbatim>\<open>/api/users/<digits>\<close> with at least one digit, and the id the view is given is the value
  of the digits, so it is never negative. The text of a negative id, and any segment that is
  empty or has a character other than a digit, matches no rule and the view is not called.
  The text of every non-negative id does reach the view with that id; in particular
  \<^verbatim>\<open>GET /api/users/0\<close> is answered with status 200 and the user \<^verbatim>\<open>{"id": 0, "name": "User0",
  "email": "user0@example.com"}\<close>.
\<close>

theorem get_user_route_nonnegative:
  "(url_match p = Some (Get_user i) \<longrightarrow>
      0 \<le> i \<and> (\<exists>seg. p = ''/api/users/'' @ seg \<and> seg \<noteq> [] \<and> list_all is_digit seg
                   \<and> i = int (nat_of_digits seg)))
   \<and> (j < 0 \<longrightarrow> url_match (''/api/users/'' @ str_int j) = None)
   \<and> (seg = [] \<or> \<not> list_all is_digit seg \<longrightarrow> url_match (''/api/users/'' @ seg) = None)
   \<and> url_match (''/api/users/'' @ str_int (int n)) = Some (Get_user (int n))
   \<and> fst (run_state (full_dispatch_request \<lparr>method = ''GET'', path = ''/api/users/0''\<rparr>) w) =
       \<lparr>body = Json (JObj [(''user'', JObj
            [(''id'', JInt 0), (''name'', JStr ''User0''),
             (''email'', JStr ''user0@example.com'')])]),
        status_code = 200\<rparr>"
proof -
  have a: "url_match p = Some (Get_user i) \<longrightarrow>
      0 \<le> i \<and> (\<exists>seg. p = ''/api/users/'' @ seg \<and> seg \<noteq> [] \<and> list_all is_digit seg
                   \<and> i = int (nat_of_digits seg))"
    using url_match_Get_user [of p i] by auto
  have b: "j < 0 \<longrightarrow> url_match (''/api/users/'' @ str_int j) = None"
    using url_match_users [of "str_int j"] str_int_negative [of j] by simp
  have c: "seg = [] \<or> \<not> list_all is_digit seg \<longrightarrow> url_match (''/api/users/'' @ seg) = None"
    using url_match_users [of seg] by (auto simp: int_converter_def)
  have d: "url_match (''/api/users/'' @ str_int (int n)) = Some (Get_user (int n))"
    using str_nat_digits [of n] url_match_users [of "str_int (int n)"]
    by (simp add: int_converter_def str_int_def)
  have "url_match ''/api/users/0'' = Some (Get_user 0)"
    by (simp add: url_match_def strip_prefix_def int_converter_def is_digit_def
        nat_of_digits_def digit_val_def)
  then have e: "fst (run_state (full_dispatch_request \<lparr>method = ''GET'', path = ''/api/users/0''\<rparr>) w) =
       \<lparr>body = Json (JObj [(''user'', JObj
            [(''id'', JInt 0), (''name'', JStr ''User0''),
             (''email'', JStr ''user0@example.com'')])]),
        status_code = 200\<rparr>"
    by (simp add: full_dispatch_response dispatch_request_def get_user_zero answer_def)
  from a b c d e show ?thesis by blast
qed

theorem get_user_route_nonnegative_witness:
  "url_match ''/api/users/7'' = Some (Get_user 7) \<and> (0::int) \<le> 7
   \<and> (- 3 :: int) < 0 \<and> url_match ''/api/users/-3'' = None
   \<and> \<not> list_all is_digit ''abc'' \<and> url_match ''/api/users/abc'' = None"
proof -
  have h: "url_match ''/api/users/7'' = Some (Get_user 7)"
    by (simp add: url_match_def strip_prefix_def int_converter_def is_digit_def
        nat_of_digits_def digit_val_def)
  have s: "str_int (- 3) = ''-3''"
    by (simp add: str_int_def str_nat.simps digit_char_numeral)
  have d: "\<not> list_all is_digit ''abc''" by (simp add: is_digit_def)
  from get_user_route_nonnegative [of "''/api/users/7''" 7 "- 3" "''abc''" 0 fresh_world] h s d
  show ?thesis by simp
qed

subsection \<open>\<^verbatim>\<open>GET /api/slow\<close>\<close>







end
